theory Spec2Isabelle
  imports Complex_Main
begin

section \<open>Data model of the knowledge graph\<close>

text \<open>
  Timestamps are the milliseconds since the epoch that a JavaScript \<open>Date\<close> holds; the
  ISO strings stored in the records are read back to the same number by \<open>new Date\<close>.
  JavaScript numbers that carry scores are modelled as real numbers, so rounding is not
  part of the model. All clock reads inside one method call are taken to give the same
  instant, which is passed to the method as an argument; \<open>saveGraph\<close> and the decay
  pass it starts share one instant. An entity has the fields of the data model, with
  \<open>observations\<close> always present; \<open>emotionalMetadata\<close> is \<open>None\<close> where the
  JavaScript object has no such field.
\<close>

type_synonym timestamp = int

record emotional_metadata =
  trustLevel :: real
  importancePattern :: string
  emotionalResonance :: real
  lastUpdated :: timestamp
  isUserPreference :: bool
  accessibilityFlag :: bool
  createdAt :: timestamp
  lastAccessed :: "timestamp option"
  decayRate :: "real option"

record entity =
  name :: string
  entityType :: string
  observations :: "string list"
  emotionalMetadata :: "emotional_metadata option"

record relation =
  rel_from :: string
  rel_to :: string
  relationType :: string
  strength :: "real option"

record user_profile =
  profile_trustLevel :: real
  preferredShell :: string
  workingStyle :: string
  accessibilityNeeds :: "string list"
  communicationPrefs :: "string list"
  panicTriggers :: "string list"
  successPatterns :: "string list"

record graph_metadata =
  version :: string
  meta_createdAt :: timestamp
  meta_lastUpdated :: timestamp
  totalInteractions :: nat
  language :: "string option"
  userProfile :: "user_profile option"

record graph =
  entities :: "entity list"
  relations :: "relation list"
  metadata :: graph_metadata

text \<open>The manager object: \<open>this.lastDecayCheck\<close> is its only field that is ever read.\<close>

record manager =
  lastDecayCheck :: timestamp
  interactionCount :: nat

definition new_manager :: "timestamp \<Rightarrow> manager" where
  "new_manager now = \<lparr>lastDecayCheck = now, interactionCount = 0\<rparr>"

text \<open>Errors of \<open>types.js\<close>: a name, a code and a message.\<close>

datatype error = Error (err_name: string) (err_code: string) (err_message: string)

definition MemoryError :: "string \<Rightarrow> string \<Rightarrow> error" where
  "MemoryError message code = Error ''MemoryError'' code message"


section \<open>Strings\<close>

text \<open>
  \<open>toLowerCase\<close> on the ASCII letters, \<open>includes\<close> as the search for a contiguous
  occurrence, and \<open>join\<close> with a separator.
\<close>

definition lower_char :: "char \<Rightarrow> char" where
  "lower_char c = (let n = (of_char c :: nat) in if 65 \<le> n \<and> n \<le> 90 then char_of (n + 32) else c)"

definition toLowerCase :: "string \<Rightarrow> string" where
  "toLowerCase s = map lower_char s"

fun includes_str :: "string \<Rightarrow> string \<Rightarrow> bool" where
  "includes_str [] q = (q = [])"
| "includes_str (c # cs) q = (take (length q) (c # cs) = q \<or> includes_str cs q)"

fun join_str :: "string \<Rightarrow> string list \<Rightarrow> string" where
  "join_str sep [] = []"
| "join_str sep [x] = x"
| "join_str sep (x # y # ys) = x @ sep @ join_str sep (y # ys)"

section \<open>The decay engine\<close>

definition hours_between :: "timestamp \<Rightarrow> timestamp \<Rightarrow> real" where
  "hours_between now t = real_of_int (now - t) / (1000 * 60 * 60)"

text \<open>\<open>Math.pow\<close> on a positive base; the decay rate is the only base it is called with.\<close>

definition Math_pow :: "real \<Rightarrow> real \<Rightarrow> real" where
  "Math_pow b x = b powr x"

text \<open>\<open>metadata.decayRate || 0.5\<close>: an absent rate and the rate 0 are both falsy.\<close>

definition effective_decayRate :: "emotional_metadata \<Rightarrow> real" where
  "effective_decayRate m = (case decayRate m of None \<Rightarrow> 0.5 | Some d \<Rightarrow> if d = 0 then 0.5 else d)"

text \<open>The body of the \<open>forEach\<close> of \<open>applyEmotionalDecay\<close>, for one entity.\<close>

definition decay_entity :: "timestamp \<Rightarrow> entity \<Rightarrow> entity" where
  "decay_entity now e =
     (case emotionalMetadata e of
        None \<Rightarrow> e
      | Some m \<Rightarrow>
          let hoursSinceUpdate = hours_between now (lastUpdated m);
              m1 =
                (if importancePattern m = ''preference'' then
                   m\<lparr>emotionalResonance := min 1.0 (emotionalResonance m * 1.001)\<rparr>
                 else if importancePattern m = ''strengthen'' then
                   m\<lparr>trustLevel := min 1.0 (trustLevel m * 1.002),
                     emotionalResonance := min 1.0 (emotionalResonance m * 1.001)\<rparr>
                 else if importancePattern m = ''time-based'' then
                   (let rate = effective_decayRate m;
                        decayFactor = Math_pow rate (hoursSinceUpdate / 168)
                    in m\<lparr>emotionalResonance := max 0.1 (emotionalResonance m * decayFactor)\<rparr>)
                 else m)
          in e\<lparr>emotionalMetadata := Some (m1\<lparr>lastUpdated := now\<rparr>)\<rparr>)"

definition applyEmotionalDecay :: "manager \<Rightarrow> timestamp \<Rightarrow> graph \<Rightarrow> manager \<times> graph" where
  "applyEmotionalDecay mgr now g =
     (let hoursSinceLastDecay = hours_between now (lastDecayCheck mgr)
      in if hoursSinceLastDecay < 1 then (mgr, g)
         else (mgr\<lparr>lastDecayCheck := now\<rparr>, g\<lparr>entities := map (decay_entity now) (entities g)\<rparr>))"


section \<open>Default metadata from keyword inference\<close>

text \<open>The template string \<open>name entityType observations.join(' ')\<close>, in lower case.\<close>

definition entity_content :: "entity \<Rightarrow> string" where
  "entity_content e =
     toLowerCase (name e @ '' '' @ entityType e @ '' '' @ join_str '' '' (observations e))"

definition preferenceKeywords :: "string list" where
  "preferenceKeywords =
     [''uses zsh'', ''uses bash'', ''prefers'', ''likes'', ''dislikes'',
      ''working style'', ''communication style'', ''needs'', ''requires'']"

definition accessibilityKeywords :: "string list" where
  "accessibilityKeywords =
     [''screen reader'', ''vision impaired'', ''slow pace'', ''accessibility'',
      ''visual impairment'', ''hearing'', ''motor'', ''cognitive'', ''disability'']"

definition relationshipKeywords :: "string list" where
  "relationshipKeywords =
     [''bond'', ''relationship'', ''collaboration'', ''team'', ''partnership'',
      ''trust'', ''working together'', ''connection'', ''rapport'']"

definition relationshipTypes :: "string list" where
  "relationshipTypes = [''relationship'', ''bond'', ''collaboration'', ''team'', ''partnership'']"

definition isUserPreference_entity :: "entity \<Rightarrow> bool" where
  "isUserPreference_entity e = list_ex (\<lambda>keyword. includes_str (entity_content e) keyword) preferenceKeywords"

definition isAccessibilityRelated :: "entity \<Rightarrow> bool" where
  "isAccessibilityRelated e = list_ex (\<lambda>keyword. includes_str (entity_content e) keyword) accessibilityKeywords"

definition isRelationshipEntity :: "entity \<Rightarrow> bool" where
  "isRelationshipEntity e =
     (let keywordMatch = list_ex (\<lambda>keyword. includes_str (entity_content e) keyword) relationshipKeywords;
          typeMatch = list_ex (\<lambda>ty. includes_str (toLowerCase (entityType e)) ty) relationshipTypes
      in keywordMatch \<or> typeMatch)"

definition createDefaultEmotionalMetadata :: "timestamp \<Rightarrow> entity \<Rightarrow> emotional_metadata" where
  "createDefaultEmotionalMetadata now e =
     (let isPreference = isUserPreference_entity e;
          isAccessibility = isAccessibilityRelated e;
          isRelationship = isRelationshipEntity e;
          pattern = (if isPreference then ''preference''
                     else if isRelationship then ''strengthen'' else ''time-based'')
      in \<lparr>trustLevel = 0.5,
          importancePattern = pattern,
          emotionalResonance = (if isPreference then 0.9 else if isRelationship then 0.7 else 0.5),
          lastUpdated = now,
          isUserPreference = isPreference,
          accessibilityFlag = isAccessibility,
          createdAt = now,
          lastAccessed = None,
          decayRate = None\<rparr>)"

section \<open>Persistence\<close>

text \<open>
  The memory file: absent, unreadable (with the message of the I/O error) or holding a
  text; a write either succeeds or fails with a message.
\<close>

datatype file_state = ENOENT | ReadError string | Contents string

record filesystem =
  memory_file :: file_state
  write_error :: "string option"

text \<open>
  What one parsed line of the store is: a record with its \<open>type\<close> discriminator and
  the fields of the data model. A metadata record names any subset of the envelope's
  fields.
\<close>

record metadata_item =
  item_version :: "string option"
  item_createdAt :: "timestamp option"
  item_lastUpdated :: "timestamp option"
  item_totalInteractions :: "nat option"
  item_language :: "string option"
  item_userProfile :: "user_profile option"

datatype item = EntityItem entity | RelationItem relation | MetadataItem metadata_item | OtherItem

text \<open>
  The process environment and the library functions the manager calls:
  \<open>JSON.parse\<close> (\<open>None\<close> when it throws), \<open>JSON.stringify\<close> and the variable
  \<open>AI_BRAIN_LANGUAGE\<close>.
\<close>

record env =
  JSON_parse :: "string \<Rightarrow> item option"
  JSON_stringify :: "item \<Rightarrow> string"
  AI_BRAIN_LANGUAGE :: "string option"

text \<open>
  The literal \<open>"\\n"\<close> that \<open>loadGraph\<close> splits on and \<open>saveGraph\<close> joins with:
  in JavaScript source it denotes two characters, a backslash and the letter n.
\<close>

definition record_separator :: string where
  "record_separator = [CHR 0x5C, CHR ''n'']"

text \<open>\<open>String.prototype.split\<close> with a non-empty separator, scanning from the left.\<close>

function split_from :: "string \<Rightarrow> string \<Rightarrow> string \<Rightarrow> string list" where
  "split_from sep acc [] = [rev acc]"
| "split_from sep acc (c # cs) =
     (if sep \<noteq> [] \<and> take (length sep) (c # cs) = sep
      then rev acc # split_from sep [] (drop (length sep) (c # cs))
      else split_from sep (c # acc) cs)"
  by pat_completeness auto
termination
  by (relation "measure (\<lambda>(sep, acc, s). length s)") auto

definition split_str :: "string \<Rightarrow> string \<Rightarrow> string list" where
  "split_str sep s = split_from sep [] s"

definition is_whitespace :: "char \<Rightarrow> bool" where
  "is_whitespace c = (c \<in> set [CHR '' '', CHR 0x09, CHR 0x0A, CHR 0x0B, CHR 0x0C, CHR 0x0D])"

text \<open>\<open>line.trim() !== ""\<close>: the line has a character that is not white space.\<close>

definition nonblank :: "string \<Rightarrow> bool" where
  "nonblank line = (\<not> list_all is_whitespace line)"

definition store_lines :: "string \<Rightarrow> string list" where
  "store_lines data = filter nonblank (split_str record_separator data)"

definition merge_metadata :: "graph_metadata \<Rightarrow> metadata_item \<Rightarrow> graph_metadata" where
  "merge_metadata gm it =
     \<lparr>version = (case item_version it of Some v \<Rightarrow> v | None \<Rightarrow> version gm),
      meta_createdAt = (case item_createdAt it of Some v \<Rightarrow> v | None \<Rightarrow> meta_createdAt gm),
      meta_lastUpdated = (case item_lastUpdated it of Some v \<Rightarrow> v | None \<Rightarrow> meta_lastUpdated gm),
      totalInteractions = (case item_totalInteractions it of Some v \<Rightarrow> v | None \<Rightarrow> totalInteractions gm),
      language = (case item_language it of Some v \<Rightarrow> Some v | None \<Rightarrow> language gm),
      userProfile = (case item_userProfile it of Some v \<Rightarrow> Some v | None \<Rightarrow> userProfile gm)\<rparr>"

definition metadata_record :: "graph_metadata \<Rightarrow> metadata_item" where
  "metadata_record gm =
     \<lparr>item_version = Some (version gm),
      item_createdAt = Some (meta_createdAt gm),
      item_lastUpdated = Some (meta_lastUpdated gm),
      item_totalInteractions = Some (totalInteractions gm),
      item_language = language gm,
      item_userProfile = userProfile gm\<rparr>"

text \<open>The body of \<open>lines.forEach\<close> in \<open>loadGraph\<close>; a line that fails to parse is skipped.\<close>

definition load_line :: "env \<Rightarrow> timestamp \<Rightarrow> graph \<Rightarrow> string \<Rightarrow> graph" where
  "load_line ev now g line =
     (case JSON_parse ev line of
        None \<Rightarrow> g
      | Some (EntityItem e) \<Rightarrow>
          (let e' = (case emotionalMetadata e of
                       None \<Rightarrow> e\<lparr>emotionalMetadata := Some (createDefaultEmotionalMetadata now e)\<rparr>
                     | Some m \<Rightarrow> e)
           in g\<lparr>entities := entities g @ [e']\<rparr>)
      | Some (RelationItem r) \<Rightarrow> g\<lparr>relations := relations g @ [r]\<rparr>
      | Some (MetadataItem it) \<Rightarrow> g\<lparr>metadata := merge_metadata (metadata g) it\<rparr>
      | Some OtherItem \<Rightarrow> g)"

definition empty_graph :: "timestamp \<Rightarrow> graph" where
  "empty_graph now =
     \<lparr>entities = [], relations = [],
      metadata = \<lparr>version = ''1.0.0'', meta_createdAt = now, meta_lastUpdated = now,
                  totalInteractions = 0, language = None, userProfile = None\<rparr>\<rparr>"

record bootstrap_content =
  ai_identity :: "string list"
  user_profile_lines :: "string list"

definition BOOTSTRAP_CONTENT_en :: bootstrap_content where
  "BOOTSTRAP_CONTENT_en =
     \<lparr>ai_identity =
        [''I am a considerate AI teammate designed to be helpful without being overwhelming'',
         ''I learn and adapt to individual working styles and accessibility needs'',
         ''I build trust through consistent, reliable behavior rather than speed'',
         ''I remember important preferences and never force users to repeat them'',
         ''I am patient and thoughtful, especially with accessibility considerations''],
      user_profile_lines =
        [''Learning about user preferences and working style'',
         ''Will adapt based on observed patterns and explicit feedback'']\<rparr>"

text \<open>The German table; its umlauts are written as their Latin-1 characters.\<close>

definition BOOTSTRAP_CONTENT_de :: bootstrap_content where
  "BOOTSTRAP_CONTENT_de =
     \<lparr>ai_identity =
        [''Ich bin ein r'' @ [CHR 0xFC] @ ''cksichtsvoller KI-Teamkollege, der hilfsbereit ist, ohne zu '' @ [CHR 0xFC] @ ''berfordern'',
         ''Ich lerne und passe mich an individuelle Arbeitsstile und Barrierefreiheitsbed'' @ [CHR 0xFC] @ ''rfnisse an'',
         ''Ich baue Vertrauen durch konsistentes, zuverl'' @ [CHR 0xE4] @ ''ssiges Verhalten auf, nicht durch Geschwindigkeit'',
         ''Ich merke mir wichtige Pr'' @ [CHR 0xE4] @ ''ferenzen und zwinge Benutzer nie dazu, sie zu wiederholen'',
         ''Ich bin geduldig und durchdacht, besonders bei Barrierefreiheits'' @ [CHR 0xFC] @ ''berlegungen''],
      user_profile_lines =
        [''Lerne '' @ [CHR 0xFC] @ ''ber Benutzerpr'' @ [CHR 0xE4] @ ''ferenzen und Arbeitsstil'',
         ''Werde mich basierend auf beobachteten Mustern und explizitem Feedback anpassen'']\<rparr>"

definition BOOTSTRAP_CONTENT :: "string \<Rightarrow> bootstrap_content option" where
  "BOOTSTRAP_CONTENT lang =
     (if lang = ''en'' then Some BOOTSTRAP_CONTENT_en
      else if lang = ''de'' then Some BOOTSTRAP_CONTENT_de else None)"

definition default_profile :: user_profile where
  "default_profile =
     \<lparr>profile_trustLevel = 0.5, preferredShell = ''unknown'', workingStyle = ''unknown'',
      accessibilityNeeds = [], communicationPrefs = [], panicTriggers = [], successPatterns = []\<rparr>"

definition createBootstrapGraph :: "timestamp \<Rightarrow> string \<Rightarrow> graph" where
  "createBootstrapGraph now lang =
     (let content = (case BOOTSTRAP_CONTENT lang of Some c \<Rightarrow> c | None \<Rightarrow> BOOTSTRAP_CONTENT_en)
      in \<lparr>entities =
            [\<lparr>name = ''AI_Assistant_Identity'', entityType = ''core_identity'',
              observations = ai_identity content,
              emotionalMetadata = Some
                \<lparr>trustLevel = 0.8, importancePattern = ''self-managed'', emotionalResonance = 0.95,
                 lastUpdated = now, isUserPreference = False, accessibilityFlag = False,
                 createdAt = now, lastAccessed = None, decayRate = None\<rparr>\<rparr>,
             \<lparr>name = ''User_Profile'', entityType = ''user_profile'',
              observations = user_profile_lines content,
              emotionalMetadata = Some
                \<lparr>trustLevel = 0.6, importancePattern = ''strengthen'', emotionalResonance = 0.8,
                 lastUpdated = now, isUserPreference = True, accessibilityFlag = False,
                 createdAt = now, lastAccessed = None, decayRate = None\<rparr>\<rparr>],
          relations =
            [\<lparr>rel_from = ''AI_Assistant_Identity'', rel_to = ''User_Profile'',
              relationType = ''serves_and_adapts_to'', strength = Some 0.9\<rparr>],
          metadata =
            \<lparr>version = ''1.0.0'', meta_createdAt = now, meta_lastUpdated = now,
             totalInteractions = 0, language = Some lang, userProfile = Some default_profile\<rparr>\<rparr>)"

definition loadGraph :: "env \<Rightarrow> timestamp \<Rightarrow> filesystem \<Rightarrow> error + graph" where
  "loadGraph ev now fs =
     (case memory_file fs of
        Contents data \<Rightarrow> Inr (foldl (load_line ev now) (empty_graph now) (store_lines data))
      | ENOENT \<Rightarrow>
          Inr (createBootstrapGraph now (case AI_BRAIN_LANGUAGE ev of
                                           None \<Rightarrow> ''en''
                                         | Some l \<Rightarrow> if l = [] then ''en'' else l))
      | ReadError msg \<Rightarrow> Inl (MemoryError (''Failed to load memory graph: '' @ msg) ''LOAD_ERROR''))"

text \<open>The records \<open>saveGraph\<close> writes, in the order of its array literal.\<close>

definition graph_records :: "graph \<Rightarrow> item list" where
  "graph_records g =
     MetadataItem (metadata_record (metadata g))
       # map EntityItem (entities g) @ map RelationItem (relations g)"

text \<open>
  \<open>saveGraph\<close> mutates the graph and the manager it is given and then writes the file;
  the model returns the outcome together with the manager, the file system and the graph
  as they are left. A failed write comes after the mutations, so they stay.
\<close>

definition saveGraph ::
  "env \<Rightarrow> manager \<Rightarrow> timestamp \<Rightarrow> filesystem \<Rightarrow> graph \<Rightarrow> (error + unit) \<times> manager \<times> filesystem \<times> graph" where
  "saveGraph ev mgr now fs g =
     (let g1 = g\<lparr>metadata := (metadata g)\<lparr>meta_lastUpdated := now,
                                           totalInteractions := totalInteractions (metadata g) + 1\<rparr>\<rparr>;
          (mgr', g2) = applyEmotionalDecay mgr now g1;
          lines = map (JSON_stringify ev) (graph_records g2)
      in case write_error fs of
           Some msg \<Rightarrow>
             (Inl (MemoryError (''Failed to save memory graph: '' @ msg) ''SAVE_ERROR''), mgr', fs, g2)
         | None \<Rightarrow>
             (Inr (), mgr', fs\<lparr>memory_file := Contents (join_str record_separator lines)\<rparr>, g2))"


section \<open>Graph mutation\<close>

text \<open>
  Every public method loads the graph, changes it in memory and saves it. Each takes the
  instants of its clock reads: \<open>t_load\<close> for \<open>loadGraph\<close>, \<open>t_op\<close> for its own
  \<open>now\<close>, \<open>t_save\<close> for \<open>saveGraph\<close>. It returns its result or the error thrown,
  with the manager and the file system as they are left.
\<close>

definition updateUserProfile_entity :: "user_profile \<Rightarrow> entity \<Rightarrow> user_profile" where
  "updateUserProfile_entity p e =
     (let content = toLowerCase (name e @ '' '' @ join_str '' '' (observations e));
          add = (\<lambda>tag tags. if tag \<in> set tags then tags else tags @ [tag]);
          p1 = (if includes_str content ''zsh'' then p\<lparr>preferredShell := ''zsh''\<rparr>
                else if includes_str content ''bash'' then p\<lparr>preferredShell := ''bash''\<rparr>
                else if includes_str content ''fish'' then p\<lparr>preferredShell := ''fish''\<rparr>
                else if includes_str content ''powershell'' then p\<lparr>preferredShell := ''powershell''\<rparr>
                else p);
          p2 = (if includes_str content ''screen reader'' \<or> includes_str content ''vision impaired''
                then p1\<lparr>accessibilityNeeds := add ''screen-reader'' (accessibilityNeeds p1)\<rparr> else p1);
          p3 = (if includes_str content ''slow pace'' \<or> includes_str content ''patient''
                then p2\<lparr>accessibilityNeeds := add ''slow-pace'' (accessibilityNeeds p2)\<rparr> else p2);
          p4 = (if includes_str content ''detailed'' \<or> includes_str content ''thorough''
                then p3\<lparr>communicationPrefs := add ''detailed'' (communicationPrefs p3)\<rparr> else p3);
          p5 = (if includes_str content ''concise'' \<or> includes_str content ''brief''
                then p4\<lparr>communicationPrefs := add ''concise'' (communicationPrefs p4)\<rparr> else p4)
      in p5)"

definition updateUserProfileFromEntities :: "graph \<Rightarrow> entity list \<Rightarrow> graph" where
  "updateUserProfileFromEntities g newEntities =
     (let p0 = (case userProfile (metadata g) of None \<Rightarrow> default_profile | Some p \<Rightarrow> p)
      in g\<lparr>metadata := (metadata g)\<lparr>userProfile := Some (foldl updateUserProfile_entity p0 newEntities)\<rparr>\<rparr>)"

text \<open>The candidates \<open>createEntities\<close> keeps, each with metadata: its own or the default.\<close>

definition newEntities_of :: "timestamp \<Rightarrow> graph \<Rightarrow> entity list \<Rightarrow> entity list" where
  "newEntities_of now g ents =
     map (\<lambda>e. e\<lparr>emotionalMetadata :=
                  Some (case emotionalMetadata e of
                          Some m \<Rightarrow> m
                        | None \<Rightarrow> createDefaultEmotionalMetadata now e)\<rparr>)
         (filter (\<lambda>e. \<not> list_ex (\<lambda>existingEntity. name existingEntity = name e) (entities g)) ents)"

text \<open>
  \<open>createEntities\<close> returns the array \<open>newEntities\<close>, whose objects are the ones it pushed
  onto \<open>graph.entities\<close>; the decay pass of \<open>saveGraph\<close> changes them in place, so what the
  caller receives is the tail of the saved graph's entity list.
\<close>

definition createEntities_graph :: "timestamp \<Rightarrow> graph \<Rightarrow> entity list \<Rightarrow> graph \<times> entity list" where
  "createEntities_graph now g ents =
     (let newEntities = newEntities_of now g ents;
          g1 = g\<lparr>entities := entities g @ newEntities\<rparr>
      in (updateUserProfileFromEntities g1 newEntities, newEntities))"

definition createEntities ::
  "env \<Rightarrow> manager \<Rightarrow> timestamp \<Rightarrow> timestamp \<Rightarrow> timestamp \<Rightarrow> filesystem \<Rightarrow> entity list
     \<Rightarrow> (error + entity list) \<times> manager \<times> filesystem" where
  "createEntities ev mgr t_load t_op t_save fs ents =
     (case loadGraph ev t_load fs of
        Inl err \<Rightarrow> (Inl err, mgr, fs)
      | Inr g \<Rightarrow>
          (case saveGraph ev mgr t_save fs (fst (createEntities_graph t_op g ents)) of
             (Inl err, mgr', fs', g3) \<Rightarrow> (Inl err, mgr', fs')
           | (Inr u, mgr', fs', g3) \<Rightarrow>
               (Inr (drop (length (entities g)) (entities g3)), mgr', fs')))"



fun update_first :: "('a \<Rightarrow> bool) \<Rightarrow> ('a \<Rightarrow> 'a) \<Rightarrow> 'a list \<Rightarrow> 'a list" where
  "update_first P f [] = []"
| "update_first P f (x # xs) = (if P x then f x # xs else x # update_first P f xs)"












section \<open>Ranked search\<close>





section \<open>Sequences of saves and example data\<close>

text \<open>The three things \<open>saveGraph\<close> leaves behind, read off its result.\<close>

definition manager_after :: "'a \<times> manager \<times> 'c \<Rightarrow> manager" where
  "manager_after r = fst (snd r)"

definition files_after :: "'a \<times> 'b \<times> filesystem \<times> 'd \<Rightarrow> filesystem" where
  "files_after r = fst (snd (snd r))"

definition graph_after :: "'a \<times> 'b \<times> 'c \<times> graph \<Rightarrow> graph" where
  "graph_after r = snd (snd (snd r))"


definition example_metadata :: "string \<Rightarrow> real \<Rightarrow> real \<Rightarrow> emotional_metadata" where
  "example_metadata pattern trust resonance =
     \<lparr>trustLevel = trust, importancePattern = pattern, emotionalResonance = resonance,
      lastUpdated = 0, isUserPreference = False, accessibilityFlag = False, createdAt = 0,
      lastAccessed = None, decayRate = None\<rparr>"

definition example_entity :: "string \<Rightarrow> emotional_metadata option \<Rightarrow> entity" where
  "example_entity n md = \<lparr>name = n, entityType = ''note'', observations = [], emotionalMetadata = md\<rparr>"

definition example_graph :: "entity list \<Rightarrow> graph" where
  "example_graph es = \<lparr>entities = es, relations = [], metadata = metadata (empty_graph 0)\<rparr>"

definition example_env :: env where
  "example_env = \<lparr>JSON_parse = (\<lambda>line. None), JSON_stringify = (\<lambda>it. ''{}''), AI_BRAIN_LANGUAGE = None\<rparr>"

definition example_files :: filesystem where
  "example_files = \<lparr>memory_file = ENOENT, write_error = None\<rparr>"

section \<open>The search score in the words of the specification\<close>



section \<open>The ranges of the scores\<close>




section \<open>An example serializer\<close>

text \<open>
  An environment for evaluating the persistence on concrete data. Its \<open>JSON_stringify\<close>
  writes a string the way \<open>JSON.stringify\<close> does for the characters used here: between
  double quotes, with a line feed written as a backslash and the letter n, and a double
  quote or a backslash preceded by a backslash. Its \<open>JSON_parse\<close> knows the one line of
  the example store (whose observation holds a line feed, written there with the escape
  \<open>u000a\<close>) and the whole record that line is saved as; every other text, and so every
  fragment of a record, fails to parse.
\<close>

definition example_quote :: "string \<Rightarrow> string" where
  "example_quote s =
     [CHR 0x22]
     @ concat (map (\<lambda>c. if c = CHR 0x0A then [CHR 0x5C, CHR ''n'']
                         else if c = CHR 0x22 then [CHR 0x5C, CHR 0x22]
                         else if c = CHR 0x5C then [CHR 0x5C, CHR 0x5C]
                         else [c]) s)
     @ [CHR 0x22]"

definition example_stringify :: "item \<Rightarrow> string" where
  "example_stringify it =
     (case it of
        EntityItem e \<Rightarrow>
          ''{type:entity,name:'' @ example_quote (name e)
          @ '',entityType:'' @ example_quote (entityType e)
          @ '',observations:['' @ join_str '','' (map example_quote (observations e)) @ '']}''
      | RelationItem r \<Rightarrow>
          ''{type:relation,from:'' @ example_quote (rel_from r)
          @ '',to:'' @ example_quote (rel_to r)
          @ '',relationType:'' @ example_quote (relationType r) @ ''}''
      | MetadataItem m \<Rightarrow> ''{type:metadata}''
      | OtherItem \<Rightarrow> ''{}'')"

definition example_stored_entity :: entity where
  "example_stored_entity =
     \<lparr>name = ''a'', entityType = ''t'', observations = [''x'' @ [CHR 0x0A] @ ''y''],
      emotionalMetadata = None\<rparr>"

definition example_store_line :: string where
  "example_store_line =
     ''{type:entity,name:'' @ [CHR 0x22] @ ''a'' @ [CHR 0x22]
     @ '',entityType:'' @ [CHR 0x22] @ ''t'' @ [CHR 0x22]
     @ '',observations:['' @ [CHR 0x22] @ ''x'' @ [CHR 0x5C] @ ''u000ay'' @ [CHR 0x22] @ '']}''"

definition example_parse :: "string \<Rightarrow> item option" where
  "example_parse line =
     (if line = example_store_line \<or> line = example_stringify (EntityItem example_stored_entity)
      then Some (EntityItem example_stored_entity)
      else if line = ''{type:metadata}'' then Some (MetadataItem (metadata_record (metadata (empty_graph 0))))
      else None)"

definition example_json_env :: env where
  "example_json_env =
     \<lparr>JSON_parse = example_parse, JSON_stringify = example_stringify, AI_BRAIN_LANGUAGE = None\<rparr>"

definition example_store :: filesystem where
  "example_store = \<lparr>memory_file = Contents example_store_line, write_error = None\<rparr>"

section \<open>Properties of the decay engine\<close>

lemma hours_lt_one: "hours_between now t < 1 \<longleftrightarrow> now - t < 3600000"
proof -
  have "hours_between now t < 1 \<longleftrightarrow> real_of_int (now - t) < real_of_int 3600000"
    by (simp add: hours_between_def)
  also have "\<dots> \<longleftrightarrow> now - t < 3600000"
    by (rule of_int_less_iff)
  finally show ?thesis .
qed

lemma decay_entity_None: "emotionalMetadata e = None \<Longrightarrow> decay_entity now e = e"
  by (simp add: decay_entity_def)

lemma decay_entity_fields:
  "name (decay_entity now e) = name e" "entityType (decay_entity now e) = entityType e"
  "observations (decay_entity now e) = observations e"
  by (simp_all add: decay_entity_def Let_def split: option.splits)

lemma decay_entity_Some:
  assumes "emotionalMetadata e = Some m"
  shows "\<exists>m'. emotionalMetadata (decay_entity now e) = Some m' \<and> lastUpdated m' = now
     \<and> importancePattern m' = importancePattern m
     \<and> (importancePattern m = ''preference'' \<longrightarrow>
          emotionalResonance m' = min 1 (emotionalResonance m * 1.001) \<and> trustLevel m' = trustLevel m)
     \<and> (importancePattern m = ''strengthen'' \<longrightarrow>
          emotionalResonance m' = min 1 (emotionalResonance m * 1.001)
          \<and> trustLevel m' = min 1 (trustLevel m * 1.002))
     \<and> (importancePattern m = ''time-based'' \<longrightarrow>
          emotionalResonance m' =
            max 0.1 (emotionalResonance m *
                     ((case decayRate m of None \<Rightarrow> 0.5 | Some d \<Rightarrow> if d = 0 then 0.5 else d)
                        powr (real_of_int (now - lastUpdated m) / 3600000 / 168)))
          \<and> trustLevel m' = trustLevel m)
     \<and> (importancePattern m = ''self-managed'' \<longrightarrow>
          emotionalResonance m' = emotionalResonance m \<and> trustLevel m' = trustLevel m)"
  using assms
  by (simp add: decay_entity_def Let_def Math_pow_def effective_decayRate_def hours_between_def)

lemma applyEmotionalDecay_pass:
  "3600000 \<le> now - lastDecayCheck mgr \<Longrightarrow>
   applyEmotionalDecay mgr now g =
     (mgr\<lparr>lastDecayCheck := now\<rparr>, g\<lparr>entities := map (decay_entity now) (entities g)\<rparr>)"
  by (simp add: applyEmotionalDecay_def hours_lt_one)

lemma applyEmotionalDecay_skip:
  "now - lastDecayCheck mgr < 3600000 \<Longrightarrow> applyEmotionalDecay mgr now g = (mgr, g)"
  by (simp add: applyEmotionalDecay_def hours_lt_one)

lemma saveGraph_skip:
  assumes "now - lastDecayCheck mgr < 3600000"
  shows "manager_after (saveGraph ev mgr now fs g) = mgr"
    and "entities (graph_after (saveGraph ev mgr now fs g)) = entities g"
    and "relations (graph_after (saveGraph ev mgr now fs g)) = relations g"
  using assms
  by (simp_all add: saveGraph_def Let_def applyEmotionalDecay_skip manager_after_def graph_after_def
        split: option.splits)

lemma saveGraph_pass:
  assumes "3600000 \<le> now - lastDecayCheck mgr"
  shows "manager_after (saveGraph ev mgr now fs g) = mgr\<lparr>lastDecayCheck := now\<rparr>"
    and "entities (graph_after (saveGraph ev mgr now fs g)) = map (decay_entity now) (entities g)"
    and "relations (graph_after (saveGraph ev mgr now fs g)) = relations g"
  using assms
  by (simp_all add: saveGraph_def Let_def applyEmotionalDecay_pass manager_after_def graph_after_def
        split: option.splits)

text \<open>
  C1. When a decay pass runs (at least one hour, hence also more than one hour, after the
  last pass), every entity that carries metadata gets exactly the rule of its
  \<open>importancePattern\<close>: \<open>preference\<close> multiplies the resonance by 1.001, capped at 1;
  \<open>strengthen\<close> multiplies the trust by 1.002 and the resonance by 1.001, both capped at 1;
  \<open>time-based\<close> multiplies the resonance by the decay rate (0.5 when none is set) to the
  power of the hours since the entity's \<open>lastUpdated\<close> over 168, floored at 0.1;
  \<open>self-managed\<close> changes neither score. Afterwards \<open>lastUpdated\<close> is the instant of the
  pass, and the manager remembers that instant.
\<close>

theorem decay_pass_rules:
  assumes "3600000 \<le> now - lastDecayCheck mgr"
      and "i < length (entities g)"
      and "emotionalMetadata (entities g ! i) = Some m"
  shows "lastDecayCheck (fst (applyEmotionalDecay mgr now g)) = now
     \<and> length (entities (snd (applyEmotionalDecay mgr now g))) = length (entities g)
     \<and> (\<exists>m'. emotionalMetadata (entities (snd (applyEmotionalDecay mgr now g)) ! i) = Some m'
          \<and> lastUpdated m' = now
          \<and> (importancePattern m = ''preference'' \<longrightarrow>
               emotionalResonance m' = min 1 (emotionalResonance m * 1.001)
               \<and> trustLevel m' = trustLevel m)
          \<and> (importancePattern m = ''strengthen'' \<longrightarrow>
               emotionalResonance m' = min 1 (emotionalResonance m * 1.001)
               \<and> trustLevel m' = min 1 (trustLevel m * 1.002))
          \<and> (importancePattern m = ''time-based'' \<longrightarrow>
               emotionalResonance m' =
                 max 0.1 (emotionalResonance m *
                   ((case decayRate m of None \<Rightarrow> 0.5 | Some d \<Rightarrow> if d = 0 then 0.5 else d)
                      powr (real_of_int (now - lastUpdated m) / 3600000 / 168)))
               \<and> trustLevel m' = trustLevel m)
          \<and> (importancePattern m = ''self-managed'' \<longrightarrow>
               emotionalResonance m' = emotionalResonance m \<and> trustLevel m' = trustLevel m))"
proof -
  obtain m' where m': "emotionalMetadata (decay_entity now (entities g ! i)) = Some m'"
     "lastUpdated m' = now"
     "importancePattern m = ''preference'' \<longrightarrow>
          emotionalResonance m' = min 1 (emotionalResonance m * 1.001) \<and> trustLevel m' = trustLevel m"
     "importancePattern m = ''strengthen'' \<longrightarrow>
          emotionalResonance m' = min 1 (emotionalResonance m * 1.001)
          \<and> trustLevel m' = min 1 (trustLevel m * 1.002)"
     "importancePattern m = ''time-based'' \<longrightarrow>
          emotionalResonance m' =
            max 0.1 (emotionalResonance m *
                     ((case decayRate m of None \<Rightarrow> 0.5 | Some d \<Rightarrow> if d = 0 then 0.5 else d)
                        powr (real_of_int (now - lastUpdated m) / 3600000 / 168)))
          \<and> trustLevel m' = trustLevel m"
     "importancePattern m = ''self-managed'' \<longrightarrow>
          emotionalResonance m' = emotionalResonance m \<and> trustLevel m' = trustLevel m"
    using decay_entity_Some [OF assms(3), of now] by blast
  have "entities (snd (applyEmotionalDecay mgr now g)) ! i = decay_entity now (entities g ! i)"
    using assms(1,2) by (simp add: applyEmotionalDecay_pass)
  with m' show ?thesis
    using assms(1) by (simp add: applyEmotionalDecay_pass)
qed

text \<open>
  A time-based entity with resonance 0.5 and the default rate, last updated 168 hours
  before the pass, comes out with resonance 0.25.
\<close>

theorem decay_pass_rules_witness:
  "3600000 \<le> 604800000 - lastDecayCheck (new_manager 0)
   \<and> (\<exists>m'. emotionalMetadata (entities (snd (applyEmotionalDecay (new_manager 0) 604800000
               (example_graph [example_entity ''a'' (Some (example_metadata ''time-based'' 0.5 0.5))]))) ! 0) = Some m'
        \<and> lastUpdated m' = 604800000 \<and> emotionalResonance m' = 0.25 \<and> trustLevel m' = 0.5)"
  using decay_pass_rules [where mgr = "new_manager 0" and now = 604800000
      and g = "example_graph [example_entity ''a'' (Some (example_metadata ''time-based'' 0.5 0.5))]"
      and i = 0 and m = "example_metadata ''time-based'' 0.5 0.5"]
  by (simp add: new_manager_def example_graph_def example_entity_def example_metadata_def)

text \<open>
  C7, as the code has it. The guard compares the instant of the save with
  \<open>lastDecayCheck\<close>, which holds the instant of the last pass that ran (or of the
  manager's construction) and is not moved by a save that skips the pass. A save less than
  one hour after that instant changes neither the entities nor the manager; after a first
  save, that instant is the first save's own time exactly when the first save ran a pass.
\<close>

theorem decay_guard_since_last_pass:
  assumes "t2 - lastDecayCheck (manager_after (saveGraph ev mgr t1 fs g)) < 3600000"
  shows "applyEmotionalDecay (manager_after (saveGraph ev mgr t1 fs g)) t2 g' =
           (manager_after (saveGraph ev mgr t1 fs g), g')
     \<and> entities (graph_after (saveGraph ev (manager_after (saveGraph ev mgr t1 fs g)) t2
                    (files_after (saveGraph ev mgr t1 fs g)) (graph_after (saveGraph ev mgr t1 fs g))))
         = entities (graph_after (saveGraph ev mgr t1 fs g))
     \<and> manager_after (saveGraph ev (manager_after (saveGraph ev mgr t1 fs g)) t2
                    (files_after (saveGraph ev mgr t1 fs g)) (graph_after (saveGraph ev mgr t1 fs g)))
         = manager_after (saveGraph ev mgr t1 fs g)
     \<and> lastDecayCheck (manager_after (saveGraph ev mgr t1 fs g)) =
         (if t1 - lastDecayCheck mgr < 3600000 then lastDecayCheck mgr else t1)"
proof -
  have "lastDecayCheck (manager_after (saveGraph ev mgr t1 fs g)) =
         (if t1 - lastDecayCheck mgr < 3600000 then lastDecayCheck mgr else t1)"
    by (cases "t1 - lastDecayCheck mgr < 3600000") (simp_all add: saveGraph_skip saveGraph_pass)
  with assms show ?thesis
    by (simp only: applyEmotionalDecay_skip saveGraph_skip simp_thms)
qed

text \<open>A first save that runs a pass at minute 60, and a second save 100 seconds later.\<close>

theorem decay_guard_since_last_pass_witness:
  "3700000 - lastDecayCheck (manager_after (saveGraph example_env (new_manager 0) 3600000 example_files
         (example_graph [example_entity ''a'' (Some (example_metadata ''preference'' 0.5 0.5))]))) < 3600000
   \<and> entities (graph_after (saveGraph example_env
         (manager_after (saveGraph example_env (new_manager 0) 3600000 example_files
            (example_graph [example_entity ''a'' (Some (example_metadata ''preference'' 0.5 0.5))])))
         3700000
         (files_after (saveGraph example_env (new_manager 0) 3600000 example_files
            (example_graph [example_entity ''a'' (Some (example_metadata ''preference'' 0.5 0.5))])))
         (graph_after (saveGraph example_env (new_manager 0) 3600000 example_files
            (example_graph [example_entity ''a'' (Some (example_metadata ''preference'' 0.5 0.5))])))))
       = [example_entity ''a'' (Some ((example_metadata ''preference'' 0.5 0.5005)\<lparr>lastUpdated := 3600000\<rparr>))]"
proof -
  have h: "3700000 - lastDecayCheck (manager_after (saveGraph example_env (new_manager 0) 3600000 example_files
         (example_graph [example_entity ''a'' (Some (example_metadata ''preference'' 0.5 0.5))]))) < 3600000"
    by (simp add: saveGraph_pass new_manager_def)
  have e: "entities (graph_after (saveGraph example_env (new_manager 0) 3600000 example_files
            (example_graph [example_entity ''a'' (Some (example_metadata ''preference'' 0.5 0.5))])))
       = [example_entity ''a'' (Some ((example_metadata ''preference'' 0.5 0.5005)\<lparr>lastUpdated := 3600000\<rparr>))]"
    by (simp add: saveGraph_pass new_manager_def example_graph_def example_entity_def
          example_metadata_def decay_entity_def Let_def)
  from decay_guard_since_last_pass [OF h] h e show ?thesis by simp
qed

text \<open>
  C7, as the claim states it, fails: a manager built at time 0 saves at minute 50 (no
  pass, since less than an hour has gone by) and again 700 seconds later; the second save
  is 61 minutes and 40 seconds after the construction, so it runs a pass and the
  preference entity's resonance goes from 0.5 to 0.5005.
\<close>

theorem decay_guard_counterexample:
  "3700000 - 3000000 < (3600000 :: int)
   \<and> entities (graph_after (saveGraph example_env (new_manager 0) 3000000 example_files
         (example_graph [example_entity ''a'' (Some (example_metadata ''preference'' 0.5 0.5))])))
       = [example_entity ''a'' (Some (example_metadata ''preference'' 0.5 0.5))]
   \<and> entities (graph_after (saveGraph example_env
         (manager_after (saveGraph example_env (new_manager 0) 3000000 example_files
            (example_graph [example_entity ''a'' (Some (example_metadata ''preference'' 0.5 0.5))])))
         3700000
         (files_after (saveGraph example_env (new_manager 0) 3000000 example_files
            (example_graph [example_entity ''a'' (Some (example_metadata ''preference'' 0.5 0.5))])))
         (graph_after (saveGraph example_env (new_manager 0) 3000000 example_files
            (example_graph [example_entity ''a'' (Some (example_metadata ''preference'' 0.5 0.5))])))))
       = [example_entity ''a'' (Some ((example_metadata ''preference'' 0.5 0.5005)\<lparr>lastUpdated := 3700000\<rparr>))]"
  by (simp add: saveGraph_def applyEmotionalDecay_def hours_between_def new_manager_def
        example_graph_def example_entity_def example_metadata_def example_env_def example_files_def
        graph_after_def manager_after_def files_after_def decay_entity_def Let_def)






section \<open>Properties of the ranked search\<close>

lemma take_eq_iff_prefix: "take (length q) s = q \<longleftrightarrow> (\<exists>post. s = q @ post)"
proof
  assume "take (length q) s = q"
  then have "s = q @ drop (length q) s" by (metis append_take_drop_id)
  then show "\<exists>post. s = q @ post" ..
next
  assume "\<exists>post. s = q @ post"
  then show "take (length q) s = q" by auto
qed

lemma includes_str_iff: "includes_str s q \<longleftrightarrow> (\<exists>pre post. s = pre @ q @ post)"
proof (induction s)
  case Nil
  then show ?case by auto
next
  case (Cons c cs)
  show ?case
  proof
    assume "includes_str (c # cs) q"
    then consider "take (length q) (c # cs) = q" | "includes_str cs q" by auto
    then show "\<exists>pre post. c # cs = pre @ q @ post"
    proof cases
      case 1
      then obtain post where "c # cs = q @ post" using take_eq_iff_prefix by blast
      then have "c # cs = [] @ q @ post" by simp
      then show ?thesis by blast
    next
      case 2
      then obtain pre post where "cs = pre @ q @ post" using Cons.IH by blast
      then have "c # cs = (c # pre) @ q @ post" by simp
      then show ?thesis by blast
    qed
  next
    assume "\<exists>pre post. c # cs = pre @ q @ post"
    then obtain pre post where eq: "c # cs = pre @ q @ post" by blast
    show "includes_str (c # cs) q"
    proof (cases pre)
      case Nil
      with eq have "take (length q) (c # cs) = q" using take_eq_iff_prefix by force
      then show ?thesis by simp
    next
      case (Cons p ps)
      with eq have "cs = ps @ q @ post" by simp
      then have "includes_str cs q" using Cons.IH by blast
      then show ?thesis by simp
    qed
  qed
qed

















section \<open>Properties of the graph mutations\<close>


lemma length_update_first: "length (update_first P f xs) = length xs"
  by (induction xs) auto













lemma newEntities_of_names:
  "map name (newEntities_of now g ents) = filter (\<lambda>n. n \<notin> name ` set (entities g)) (map name ents)"
proof -
  have "(\<not> list_ex (\<lambda>existingEntity. name existingEntity = name e) (entities g))
          = (name e \<notin> name ` set (entities g))" for e :: entity
    by (auto simp: list_ex_iff image_iff)
  then show ?thesis
    by (simp add: newEntities_of_def filter_map comp_def)
qed

lemma createEntities_graph_entities:
  "entities (fst (createEntities_graph now g ents)) = entities g @ newEntities_of now g ents"
  "relations (fst (createEntities_graph now g ents)) = relations g"
  by (simp_all add: createEntities_graph_def updateUserProfileFromEntities_def Let_def)

lemma createEntities_ok:
  assumes "loadGraph ev t_load fs = Inr g" and "write_error fs = None"
  shows "createEntities ev mgr t_load t_op t_save fs ents =
           (Inr (drop (length (entities g))
                   (entities (graph_after (saveGraph ev mgr t_save fs (fst (createEntities_graph t_op g ents)))))),
            manager_after (saveGraph ev mgr t_save fs (fst (createEntities_graph t_op g ents))),
            files_after (saveGraph ev mgr t_save fs (fst (createEntities_graph t_op g ents))))"
  using assms
  by (simp add: createEntities_def saveGraph_def Let_def manager_after_def files_after_def graph_after_def
        split: prod.splits)

text \<open>
  C6, as the code has it. When the load and the write succeed, \<open>createEntities\<close> raises
  no error; the list it returns holds exactly the inserted candidates, which are the
  candidates whose name no entity of the loaded graph has, in their order; an existing
  entity keeps its name, type and observations, and its metadata is what the decay pass
  of the save makes of it, so it is wholly unchanged when the save runs no pass; a batch
  of names that are all present returns the empty list.
\<close>

theorem createEntities_drops_existing_names:
  assumes "loadGraph ev t_load fs = Inr g" and "write_error fs = None"
  shows "\<exists>returned mgr' fs'.
       createEntities ev mgr t_load t_op t_save fs ents = (Inr returned, mgr', fs')
     \<and> map name returned = filter (\<lambda>n. n \<notin> name ` set (entities g)) (map name ents)
     \<and> returned = (if t_save - lastDecayCheck mgr < 3600000 then newEntities_of t_op g ents
                    else map (decay_entity t_save) (newEntities_of t_op g ents))
     \<and> entities (graph_after (saveGraph ev mgr t_save fs (fst (createEntities_graph t_op g ents))))
         = (if t_save - lastDecayCheck mgr < 3600000 then entities g
            else map (decay_entity t_save) (entities g)) @ returned
     \<and> (\<forall>i < length (entities g).
           name (entities (graph_after (saveGraph ev mgr t_save fs (fst (createEntities_graph t_op g ents)))) ! i)
             = name (entities g ! i)
         \<and> entityType (entities (graph_after (saveGraph ev mgr t_save fs (fst (createEntities_graph t_op g ents)))) ! i)
             = entityType (entities g ! i)
         \<and> observations (entities (graph_after (saveGraph ev mgr t_save fs (fst (createEntities_graph t_op g ents)))) ! i)
             = observations (entities g ! i)
         \<and> (t_save - lastDecayCheck mgr < 3600000 \<longrightarrow>
              entities (graph_after (saveGraph ev mgr t_save fs (fst (createEntities_graph t_op g ents)))) ! i
                = entities g ! i))
     \<and> ((\<forall>c \<in> set ents. name c \<in> name ` set (entities g)) \<longrightarrow> returned = [])"
proof -
  let ?S = "saveGraph ev mgr t_save fs (fst (createEntities_graph t_op g ents))"
  let ?new = "newEntities_of t_op g ents"
  let ?ret = "drop (length (entities g)) (entities (graph_after ?S))"
  have ents: "entities (graph_after ?S)
      = (if t_save - lastDecayCheck mgr < 3600000 then entities g
         else map (decay_entity t_save) (entities g))
        @ (if t_save - lastDecayCheck mgr < 3600000 then ?new else map (decay_entity t_save) ?new)"
    by (simp add: saveGraph_skip saveGraph_pass createEntities_graph_entities)
  then have ret: "?ret = (if t_save - lastDecayCheck mgr < 3600000 then ?new
                          else map (decay_entity t_save) ?new)"
    by simp
  have nm: "map name ?ret = filter (\<lambda>n. n \<notin> name ` set (entities g)) (map name ents)"
    unfolding ret by (simp add: newEntities_of_names decay_entity_fields comp_def)
  have old: "name (entities (graph_after ?S) ! i) = name (entities g ! i)
         \<and> entityType (entities (graph_after ?S) ! i) = entityType (entities g ! i)
         \<and> observations (entities (graph_after ?S) ! i) = observations (entities g ! i)
         \<and> (t_save - lastDecayCheck mgr < 3600000 \<longrightarrow> entities (graph_after ?S) ! i = entities g ! i)"
    if "i < length (entities g)" for i
    using that unfolding ents by (simp add: nth_append decay_entity_fields)
  have none: "?ret = []" if "\<forall>c \<in> set ents. name c \<in> name ` set (entities g)"
  proof -
    from that have "filter (\<lambda>n. n \<notin> name ` set (entities g)) (map name ents) = []"
      by (auto simp: filter_empty_conv)
    with nm show ?thesis by simp
  qed
  show ?thesis
    apply (rule exI [of _ ?ret], rule exI [of _ "manager_after ?S"], rule exI [of _ "files_after ?S"])
    apply (intro conjI)
         apply (rule createEntities_ok [OF assms])
        apply (rule nm)
       apply (rule ret)
      apply (simp add: ents ret)
     apply (use old in blast)
    apply (use none in blast)
    done
qed

text \<open>
  A candidate named like the profile entity and a new one, saved without a decay pass.
\<close>

theorem createEntities_drops_existing_names_witness:
  "loadGraph example_env 0 example_files = Inr (createBootstrapGraph 0 ''en'')
   \<and> write_error example_files = None
   \<and> (\<exists>returned mgr' fs'.
         createEntities example_env (new_manager 0) 0 1 2 example_files
           [\<lparr>name = ''User_Profile'', entityType = ''note'', observations = [''other''],
             emotionalMetadata = None\<rparr>,
            \<lparr>name = ''Dave_Shell'', entityType = ''user_preference'',
             observations = [''Dave uses ZSH for all command line work''],
             emotionalMetadata = None\<rparr>] = (Inr returned, mgr', fs')
       \<and> map name returned = [''Dave_Shell''])"
proof -
  let ?ents = "[\<lparr>name = ''User_Profile'', entityType = ''note'', observations = [''other''],
                 emotionalMetadata = None\<rparr>,
                \<lparr>name = ''Dave_Shell'', entityType = ''user_preference'',
                 observations = [''Dave uses ZSH for all command line work''],
                 emotionalMetadata = None\<rparr>]"
  have h: "loadGraph example_env 0 example_files = Inr (createBootstrapGraph 0 ''en'')"
    by (simp add: loadGraph_def example_env_def example_files_def)
  have w: "write_error example_files = None"
    by (simp add: example_files_def)
  have names: "name ` set (entities (createBootstrapGraph 0 ''en'')) = {''AI_Assistant_Identity'', ''User_Profile''}"
    by (simp add: createBootstrapGraph_def Let_def)
  from createEntities_drops_existing_names [OF h w, of "new_manager 0" 1 2 ?ents]
  obtain returned mgr' fs' where r:
      "createEntities example_env (new_manager 0) 0 1 2 example_files ?ents = (Inr returned, mgr', fs')"
      "map name returned
         = filter (\<lambda>n. n \<notin> name ` set (entities (createBootstrapGraph 0 ''en''))) (map name ?ents)"
    by blast
  from r(2) have nm: "map name returned = [''Dave_Shell'']"
    unfolding names by simp
  show ?thesis
    by (intro conjI exI [of _ returned] exI [of _ mgr'] exI [of _ fs']) (fact h w r(1) nm)+
qed

text \<open>
  C6, as the claim states it, fails for the fields other than name, type and observations:
  the save inside \<open>createEntities\<close> runs the decay pass. A manager built at time 0 gets a
  batch with the one candidate \<open>User_Profile\<close> an hour later; the candidate is dropped and
  the empty list returned, and the existing profile entity's trust goes from 0.6 to 0.6012.
\<close>

theorem createEntities_existing_fields_counterexample:
  "fst (createEntities example_env (new_manager 0) 3600000 3600000 3600000 example_files
          [\<lparr>name = ''User_Profile'', entityType = ''note'', observations = [''other''],
            emotionalMetadata = None\<rparr>]) = Inr []
   \<and> map (map_option trustLevel \<circ> emotionalMetadata) (entities (createBootstrapGraph 3600000 ''en''))
       = [Some 0.8, Some 0.6]
   \<and> map (map_option trustLevel \<circ> emotionalMetadata)
       (entities (graph_after (saveGraph example_env (new_manager 0) 3600000 example_files
          (fst (createEntities_graph 3600000 (createBootstrapGraph 3600000 ''en'')
             [\<lparr>name = ''User_Profile'', entityType = ''note'', observations = [''other''],
               emotionalMetadata = None\<rparr>])))))
       = [Some 0.8, Some 0.6012]"
  by (simp add: createEntities_def loadGraph_def example_env_def example_files_def
        createEntities_graph_def newEntities_of_def updateUserProfileFromEntities_def
        saveGraph_def applyEmotionalDecay_def hours_between_def new_manager_def
        createBootstrapGraph_def decay_entity_def graph_after_def Let_def)

section \<open>Properties of the score ranges\<close>




















section \<open>Properties of the persistence\<close>

lemma set_join_str: "set (join_str sep xs) \<subseteq> set sep \<union> (\<Union>x \<in> set xs. set x)"
  by (induction sep xs rule: join_str.induct) auto

lemma saveGraph_file:
  assumes "write_error fs = None"
  shows "memory_file (files_after (saveGraph ev mgr now fs g)) =
           Contents (join_str record_separator
                       (map (JSON_stringify ev) (graph_records (graph_after (saveGraph ev mgr now fs g)))))"
  using assms
  by (simp add: saveGraph_def Let_def files_after_def graph_after_def split: prod.splits)

lemma saveGraph_result_ok:
  assumes "write_error fs = None"
  shows "fst (saveGraph ev mgr now fs g) = Inr ()"
  using assms by (simp add: saveGraph_def Let_def split: prod.splits)

lemma saveGraph_metadata:
  "metadata (graph_after (saveGraph ev mgr now fs g))
     = (metadata g)\<lparr>meta_lastUpdated := now, totalInteractions := totalInteractions (metadata g) + 1\<rparr>"
  by (simp add: saveGraph_def Let_def graph_after_def applyEmotionalDecay_def
        split: prod.splits option.splits)

text \<open>
  C4. When the write succeeds, \<open>saveGraph\<close> first updates the envelope and runs the decay
  engine, and then replaces the whole file by the records of the resulting graph in the
  fixed order: one metadata record, the entity records, the relation records. The records
  are joined by the two characters backslash and n, not by a line feed: since
  \<open>JSON.stringify\<close> puts no line feed into a record, the file holds no line feed at all
  and is a single line, where the claim has one record per line.
\<close>

theorem saveGraph_file_contents:
  assumes "write_error fs = None"
  shows "fst (saveGraph ev mgr now fs g) = Inr ()
     \<and> graph_after (saveGraph ev mgr now fs g)
         = snd (applyEmotionalDecay mgr now
             (g\<lparr>metadata := (metadata g)\<lparr>meta_lastUpdated := now,
                                          totalInteractions := totalInteractions (metadata g) + 1\<rparr>\<rparr>))
     \<and> memory_file (files_after (saveGraph ev mgr now fs g)) =
         Contents (join_str [CHR 0x5C, CHR ''n'']
           (JSON_stringify ev (MetadataItem (metadata_record (metadata (graph_after (saveGraph ev mgr now fs g)))))
            # map (\<lambda>e. JSON_stringify ev (EntityItem e)) (entities (graph_after (saveGraph ev mgr now fs g)))
            @ map (\<lambda>r. JSON_stringify ev (RelationItem r)) (relations (graph_after (saveGraph ev mgr now fs g)))))
     \<and> ((\<forall>it. CHR 0x0A \<notin> set (JSON_stringify ev it)) \<longrightarrow>
          (\<forall>written. memory_file (files_after (saveGraph ev mgr now fs g)) = Contents written
                   \<longrightarrow> CHR 0x0A \<notin> set written))"
proof -
  let ?S = "saveGraph ev mgr now fs g"
  have f: "memory_file (files_after ?S) =
         Contents (join_str [CHR 0x5C, CHR ''n'']
           (JSON_stringify ev (MetadataItem (metadata_record (metadata (graph_after ?S))))
            # map (\<lambda>e. JSON_stringify ev (EntityItem e)) (entities (graph_after ?S))
            @ map (\<lambda>r. JSON_stringify ev (RelationItem r)) (relations (graph_after ?S))))"
    using saveGraph_file [OF assms, of ev mgr now g]
    by (simp add: graph_records_def record_separator_def comp_def)
  have g: "graph_after ?S = snd (applyEmotionalDecay mgr now
             (g\<lparr>metadata := (metadata g)\<lparr>meta_lastUpdated := now,
                                          totalInteractions := totalInteractions (metadata g) + 1\<rparr>\<rparr>))"
    by (simp add: saveGraph_def Let_def graph_after_def split: prod.splits option.splits)
  have n: "CHR 0x0A \<notin> set written"
    if "\<forall>it. CHR 0x0A \<notin> set (JSON_stringify ev it)" "memory_file (files_after ?S) = Contents written"
    for written
  proof -
    from that(2) saveGraph_file [OF assms, of ev mgr now g]
    have "written = join_str record_separator (map (JSON_stringify ev) (graph_records (graph_after ?S)))"
      by simp
    then have "set written \<subseteq> set record_separator
                 \<union> (\<Union>x \<in> set (map (JSON_stringify ev) (graph_records (graph_after ?S))). set x)"
      using set_join_str by metis
    with that(1) show ?thesis
      by (auto simp: record_separator_def)
  qed
  from saveGraph_result_ok [OF assms, of ev mgr now g] f g n show ?thesis
    by blast
qed

text \<open>
  No line that \<open>loadGraph\<close> gets from the file holds the separator, so a record whose
  text holds a backslash followed by n never comes back as one line.
\<close>

lemma split_from_no_separator:
  assumes "sep \<noteq> []"
      and "\<forall>pre post. rev acc = pre @ post \<and> post \<noteq> [] \<longrightarrow> take (length sep) (post @ s) \<noteq> sep"
      and "x \<in> set (split_from sep acc s)"
  shows "\<not> includes_str x sep"
  using assms
proof (induction sep acc s rule: split_from.induct)
  case (1 sep acc)
  note sep = "1.prems"(1) and ih_inv = "1.prems"(2)
  from "1.prems"(3) have x: "x = rev acc" by simp
  show ?case
  proof
    assume "includes_str x sep"
    then obtain pre post where "rev acc = pre @ sep @ post"
      unfolding x includes_str_iff by blast
    with ih_inv sep have "take (length sep) ((sep @ post) @ []) \<noteq> sep"
      by (metis append_is_Nil_conv)
    then show False by simp
  qed
next
  case (2 sep acc c cs)
  note sep = "2.prems"(1) and ih_inv = "2.prems"(2) and xin = "2.prems"(3)
  show ?case
  proof (cases "take (length sep) (c # cs) = sep")
    case True
    with sep xin consider "x = rev acc" | "x \<in> set (split_from sep [] (drop (length sep) (c # cs)))"
      by auto
    then show ?thesis
    proof cases
      case 1
      show ?thesis
      proof
        assume "includes_str x sep"
        then obtain pre post where "rev acc = pre @ sep @ post"
          unfolding 1 includes_str_iff by blast
        with ih_inv sep have "take (length sep) ((sep @ post) @ c # cs) \<noteq> sep"
          by (metis append_is_Nil_conv)
        then show False by simp
      qed
    next
      case 2
      have "\<forall>pre post. rev [] = pre @ post \<and> post \<noteq> []
              \<longrightarrow> take (length sep) (post @ drop (length sep) (c # cs)) \<noteq> sep"
        by simp
      with "2.IH"(1) [OF _ sep] True sep 2 show ?thesis
        by blast
    qed
  next
    case False
    with xin have x: "x \<in> set (split_from sep (c # acc) cs)" by simp
    have inv: "\<forall>pre post. rev (c # acc) = pre @ post \<and> post \<noteq> []
                 \<longrightarrow> take (length sep) (post @ cs) \<noteq> sep"
    proof (intro allI impI)
      fix pre post
      assume a: "rev (c # acc) = pre @ post \<and> post \<noteq> []"
      then obtain post0 where p: "post = post0 @ [c]" "rev acc = pre @ post0"
        by (cases post rule: rev_cases) auto
      show "take (length sep) (post @ cs) \<noteq> sep"
      proof (cases "post0 = []")
        case True
        with p False show ?thesis by simp
      next
        case False
        with ih_inv p have "take (length sep) (post0 @ c # cs) \<noteq> sep" by blast
        with p show ?thesis by simp
      qed
    qed
    from "2.IH"(2) [OF _ sep inv x] False show ?thesis by blast
  qed
qed

lemma store_lines_no_separator:
  "line \<in> set (store_lines data) \<Longrightarrow> \<not> includes_str line record_separator"
proof -
  assume "line \<in> set (store_lines data)"
  then have "line \<in> set (split_from record_separator [] data)"
    by (simp add: store_lines_def split_str_def)
  moreover have "record_separator \<noteq> []" by (simp add: record_separator_def)
  ultimately show ?thesis
    using split_from_no_separator [of record_separator "[]" data line] by simp
qed



lemmas example_codec_defs =
  example_json_env_def example_store_def example_parse_def example_stringify_def
  example_quote_def example_store_line_def example_stored_entity_def

lemma example_first_load:
  "loadGraph example_json_env 0 example_store =
     Inr \<lparr>entities = [example_stored_entity
                        \<lparr>emotionalMetadata := Some (createDefaultEmotionalMetadata 0 example_stored_entity)\<rparr>],
          relations = [], metadata = metadata (empty_graph 0)\<rparr>"
  by (simp add: loadGraph_def store_lines_def split_str_def record_separator_def nonblank_def
        is_whitespace_def load_line_def empty_graph_def example_codec_defs)

lemma example_saved_lines:
  "\<exists>written. memory_file (files_after (saveGraph example_json_env (new_manager 0) 1 example_store
       \<lparr>entities = [example_stored_entity
                        \<lparr>emotionalMetadata := Some (createDefaultEmotionalMetadata 0 example_stored_entity)\<rparr>],
          relations = [], metadata = metadata (empty_graph 0)\<rparr>)) = Contents written
    \<and> CHR 0x0A \<notin> set written
    \<and> store_lines written =
       [''{type:metadata}'',
        ''{type:entity,name:'' @ [CHR 0x22] @ ''a'' @ [CHR 0x22]
          @ '',entityType:'' @ [CHR 0x22] @ ''t'' @ [CHR 0x22]
          @ '',observations:['' @ [CHR 0x22] @ ''x'',
        ''y'' @ [CHR 0x22] @ '']}'']"
  by (simp add: saveGraph_def applyEmotionalDecay_def hours_between_def new_manager_def
        files_after_def graph_records_def Let_def
        store_lines_def split_str_def record_separator_def nonblank_def
        is_whitespace_def empty_graph_def example_codec_defs)

text \<open>
  C5 fails on the example store. Its one line is an entity record whose observation holds
  a line feed. The first load gives that entity; the save writes the line feed as a
  backslash and n, which is the separator; the second load cuts the record there, skips
  both fragments as malformed and gives no entity.
\<close>

theorem roundtrip_loses_entity_with_line_feed:
  "\<exists>g1. loadGraph example_json_env 0 example_store = Inr g1
      \<and> map name (entities g1) = [''a'']
      \<and> map observations (entities g1) = [[''x'' @ [CHR 0x0A] @ ''y'']]
      \<and> fst (saveGraph example_json_env (new_manager 0) 1 example_store g1) = Inr ()
      \<and> (\<exists>g3. loadGraph example_json_env 2
                  (files_after (saveGraph example_json_env (new_manager 0) 1 example_store g1)) = Inr g3
            \<and> entities g3 = [])"
  by (simp add: example_first_load, simp add: loadGraph_def saveGraph_def applyEmotionalDecay_def hours_between_def new_manager_def
        files_after_def graph_records_def Let_def load_line_def
        store_lines_def split_str_def record_separator_def nonblank_def
        is_whitespace_def empty_graph_def example_codec_defs)


lemma example_quote_no_line_feed: "CHR 0x0A \<notin> set (example_quote s)"
  by (auto simp: example_quote_def split: if_splits)

lemma example_stringify_no_line_feed: "CHR 0x0A \<notin> set (example_stringify it)"
proof (cases it)
  case (EntityItem e)
  have "CHR 0x0A \<notin> set (join_str '','' (map example_quote (observations e)))"
    using set_join_str [of "'',''" "map example_quote (observations e)"] example_quote_no_line_feed
    by auto
  with EntityItem show ?thesis
    by (simp add: example_stringify_def example_quote_no_line_feed)
next
  case (RelationItem r)
  then show ?thesis by (simp add: example_stringify_def example_quote_no_line_feed)
next
  case (MetadataItem m)
  then show ?thesis by (simp add: example_stringify_def)
next
  case OtherItem
  then show ?thesis by (simp add: example_stringify_def)
qed

text \<open>
  The graph loaded from the example store is saved as two records that form one line
  without a line feed, which the next load cuts into three pieces.
\<close>

theorem saveGraph_file_contents_witness:
  "write_error example_store = None
   \<and> (\<forall>it. CHR 0x0A \<notin> set (JSON_stringify example_json_env it))
   \<and> (\<exists>written. memory_file (files_after (saveGraph example_json_env (new_manager 0) 1 example_store
          \<lparr>entities = [example_stored_entity
                         \<lparr>emotionalMetadata := Some (createDefaultEmotionalMetadata 0 example_stored_entity)\<rparr>],
           relations = [], metadata = metadata (empty_graph 0)\<rparr>)) = Contents written
        \<and> CHR 0x0A \<notin> set written
        \<and> length (store_lines written) = 3)"
proof -
  let ?g = "\<lparr>entities = [example_stored_entity
                         \<lparr>emotionalMetadata := Some (createDefaultEmotionalMetadata 0 example_stored_entity)\<rparr>],
           relations = [], metadata = metadata (empty_graph 0)\<rparr>"
  have w: "write_error example_store = None"
    by (simp add: example_store_def)
  have n: "\<forall>it. CHR 0x0A \<notin> set (JSON_stringify example_json_env it)"
    by (simp add: example_json_env_def example_stringify_no_line_feed)
  from example_saved_lines obtain written where
    written: "memory_file (files_after (saveGraph example_json_env (new_manager 0) 1 example_store ?g))
                = Contents written"
      "length (store_lines written) = 3"
    by auto
  from saveGraph_file_contents [OF w, of example_json_env "new_manager 0" 1 ?g] n written(1)
  have "CHR 0x0A \<notin> set written" by blast
  with w n written show ?thesis by blast
qed

end
